theory Spec2Isabelle
  imports Complex_Main
begin

section \<open>The landing page's shopping cart\<close>

text \<open>
  The cart lives in the React component \<open>Landing\<close>: three pieces of component state
  (\<open>cart\<close>, \<open>isCartOpen\<close>, \<open>customerInfo\<close>) and the handlers \<open>addToCart\<close>,
  \<open>removeFromCart\<close>, \<open>updateQuantity\<close>, \<open>getTotalPrice\<close> and \<open>submitCart\<close>.
  Each handler is embedded as a function from the component state to the next one,
  together with the effects it sends to the outside (toasts and the one \<open>fetch\<close>).

  Modelling decisions:
  \<^item> a JavaScript \<open>number\<close> that holds money is a \<open>rat\<close> (exact arithmetic; every price
    of the catalogue is a multiple of 1/4 and is exact in a double), a quantity is an
    \<open>int\<close> (the page only ever passes \<open>quantity - 1\<close> and \<open>quantity + 1\<close>);
  \<open>NaN\<close> and rounding are outside the model;
  \<^item> the field \<open>id\<close> of a product is \<open>pid\<close> and its \<open>name\<close> is \<open>pname\<close>, the
    \<open>name\<close> of the customer is \<open>cname\<close>: HOL has a constant \<open>id\<close>, and record fields
    of one theory share a name space.
\<close>

subsection \<open>Data\<close>

record product =
  pid :: string
  pname :: string
  price :: rat
  image :: string
  category :: string
  description :: string
  inStock :: bool

record cartItem = product +
  quantity :: int

record customerInfo =
  cname :: string
  email :: string
  phone :: string
  address :: string

datatype toast_variant = Destructive

record toast =
  title :: string
  toast_description :: string
  variant :: "toast_variant option"

record cartData =
  customer :: customerInfo
  items :: "cartItem list"
  total :: rat
  timestamp :: string

record request =
  url :: string
  http_method :: string
  content_type :: string
  mail_to :: string
  subject :: string
  payload :: cartData

datatype effect = ToastE toast | FetchE request

record page =
  cart :: "cartItem list"
  isCartOpen :: bool
  customer_info :: customerInfo

text \<open>\<open>useState([])\<close>, \<open>useState(false)\<close> and the four empty strings.\<close>

definition empty_customerInfo :: customerInfo where
  "empty_customerInfo = \<lparr>cname = '''', email = '''', phone = '''', address = ''''\<rparr>"

definition initial_page :: page where
  "initial_page = \<lparr>cart = [], isCartOpen = False, customer_info = empty_customerInfo\<rparr>"

subsection \<open>The catalogue\<close>

definition PLUMBING_PRODUCTS :: "product list" where
  "PLUMBING_PRODUCTS =
    [\<lparr>pid = ''1'', pname = ''Professional Pipe Wrench Set'', price = 450,
      image = ''https://images.pexels.com/photos/162553/keys-workshop-mechanic-tools-162553.jpeg'',
      category = ''Tools'',
      description = ''Heavy-duty pipe wrench set for professional plumbers'', inStock = True\<rparr>,
     \<lparr>pid = ''2'', pname = ''Copper Pipe Fittings Kit'', price = 571 / 2,
      image = ''https://images.pexels.com/photos/1093038/pexels-photo-1093038.jpeg'',
      category = ''Fittings'',
      description = ''Complete copper pipe fitting kit with joints and connections'',
      inStock = True\<rparr>,
     \<lparr>pid = ''3'', pname = ''High-Pressure Water Pump'', price = 1250,
      image = ''https://images.pexels.com/photos/159160/gear-machine-mechanical-engine-159160.jpeg'',
      category = ''Pumps'',
      description = ''Industrial grade water pump for high-pressure applications'',
      inStock = True\<rparr>,
     \<lparr>pid = ''4'', pname = ''PVC Pipe Bundle - 4 inch'', price = 743 / 4,
      image = ''https://images.pexels.com/photos/1108572/pexels-photo-1108572.jpeg'',
      category = ''Pipes'',
      description = ''4-inch PVC pipes, 6-meter length bundle'', inStock = True\<rparr>,
     \<lparr>pid = ''5'', pname = ''Emergency Leak Repair Kit'', price = 95,
      image = ''https://images.pexels.com/photos/1249611/pexels-photo-1249611.jpeg'',
      category = ''Repair'',
      description = ''Emergency leak repair kit with sealants and patches'', inStock = True\<rparr>,
     \<lparr>pid = ''6'', pname = ''Digital Water Flow Meter'', price = 320,
      image = ''https://images.pexels.com/photos/257736/pexels-photo-257736.jpeg'',
      category = ''Meters'',
      description = ''Digital water flow meter with LCD display'', inStock = True\<rparr>,
     \<lparr>pid = ''7'', pname = ''Toilet Installation Kit'', price = 581 / 4,
      image = ''https://images.pexels.com/photos/6419121/pexels-photo-6419121.jpeg'',
      category = ''Installation'',
      description = ''Complete toilet installation kit with all hardware'', inStock = True\<rparr>,
     \<lparr>pid = ''8'', pname = ''Professional Drain Snake'', price = 275,
      image = ''https://images.pexels.com/photos/8101965/pexels-photo-8101965.jpeg'',
      category = ''Tools'',
      description = ''50-foot professional drain snake for blockage removal'',
      inStock = True\<rparr>]"

subsection \<open>Cart handlers\<close>

text \<open>\<open>{ ...product, quantity: 1 }\<close>: the fields of the product and a quantity.\<close>

definition with_quantity :: "product \<Rightarrow> int \<Rightarrow> cartItem" where
  "with_quantity p q =
     \<lparr>pid = pid p, pname = pname p, price = price p, image = image p,
      category = category p, description = description p, inStock = inStock p,
      quantity = q\<rparr>"

text \<open>
  The updater that \<open>addToCart\<close> hands to \<open>setCart\<close>: \<open>find\<close> looks for a line with the
  product's id; if there is one, \<open>map\<close> rebuilds the cart with the quantity of every
  line of that id raised by one, otherwise the product is appended with quantity 1.
\<close>

definition addToCart_updater :: "product \<Rightarrow> cartItem list \<Rightarrow> cartItem list" where
  "addToCart_updater p prevCart =
     (case find (\<lambda>item. pid item = pid p) prevCart of
        Some existingItem \<Rightarrow>
          map (\<lambda>item. if pid item = pid p then item\<lparr>quantity := quantity item + 1\<rparr> else item)
            prevCart
      | None \<Rightarrow> prevCart @ [with_quantity p 1])"

definition added_toast :: "product \<Rightarrow> toast" where
  "added_toast p =
     \<lparr>title = ''Added to cart'',
      toast_description = pname p @ '' has been added to your cart.'',
      variant = None\<rparr>"

definition addToCart :: "product \<Rightarrow> page \<Rightarrow> page \<times> effect list" where
  "addToCart p s = (s\<lparr>cart := addToCart_updater p (cart s)\<rparr>, [ToastE (added_toast p)])"

definition removeFromCart :: "string \<Rightarrow> page \<Rightarrow> page" where
  "removeFromCart productId s = s\<lparr>cart := filter (\<lambda>item. pid item \<noteq> productId) (cart s)\<rparr>"

definition updateQuantity :: "string \<Rightarrow> int \<Rightarrow> page \<Rightarrow> page" where
  "updateQuantity productId q s =
     (if q \<le> 0 then removeFromCart productId s
      else s\<lparr>cart := map (\<lambda>item. if pid item = productId then item\<lparr>quantity := q\<rparr> else item)
                         (cart s)\<rparr>)"

text \<open>\<open>cart.reduce((total, item) => total + item.price * item.quantity, 0)\<close>.\<close>

definition getTotalPrice :: "page \<Rightarrow> rat" where
  "getTotalPrice s = foldl (\<lambda>total item. total + price item * of_int (quantity item)) 0 (cart s)"

subsection \<open>Sequences of cart operations\<close>

datatype cart_op = AddItem product | RemoveItem string | SetQuantity string int

fun apply_op :: "page \<Rightarrow> cart_op \<Rightarrow> page" where
  "apply_op s (AddItem p) = fst (addToCart p s)"
| "apply_op s (RemoveItem i) = removeFromCart i s"
| "apply_op s (SetQuantity i q) = updateQuantity i q s"

definition run_ops :: "cart_op list \<Rightarrow> page" where
  "run_ops ops = foldl apply_op initial_page ops"

text \<open>The invariant of the cart of the data model: positive quantities, one line per id.\<close>

definition cart_ok :: "cartItem list \<Rightarrow> bool" where
  "cart_ok c \<longleftrightarrow> (\<forall>l \<in> set c. 0 < quantity l) \<and> distinct (map pid c)"

definition line_sum :: "cartItem list \<Rightarrow> rat" where
  "line_sum c = sum_list (map (\<lambda>l. price l * of_int (quantity l)) c)"

subsection \<open>Checkout\<close>

text \<open>
  \<open>submitCart\<close> is an \<open>async\<close> function that returns nothing; what it does is visible in
  the component state it leaves and in the effects it causes. The world outside is a
  parameter: what \<open>await fetch(...)\<close> does (it resolves with a response whose \<open>ok\<close> flag is
  read, or it rejects), and the string \<open>new Date().toISOString()\<close> returns.
\<close>

datatype fetch_result = Resolved bool | Rejected

definition empty_cart_toast :: toast where
  "empty_cart_toast =
     \<lparr>title = ''Cart is empty'',
      toast_description = ''Please add items to your cart before submitting.'',
      variant = Some Destructive\<rparr>"

definition missing_info_toast :: toast where
  "missing_info_toast =
     \<lparr>title = ''Missing information'',
      toast_description = ''Please fill in your name and email address.'',
      variant = Some Destructive\<rparr>"

definition submitted_toast :: toast where
  "submitted_toast =
     \<lparr>title = ''Cart submitted!'',
      toast_description = ''Your cart has been sent to our team. We'' @ [CHR 0x27] @ ''ll contact you soon.'',
      variant = None\<rparr>"

definition failed_toast :: toast where
  "failed_toast =
     \<lparr>title = ''Submission failed'',
      toast_description = ''There was an error submitting your cart. Please try again.'',
      variant = Some Destructive\<rparr>"

definition build_request :: "string \<Rightarrow> page \<Rightarrow> request" where
  "build_request now s =
     \<lparr>url = ''/api/send-cart-email'', http_method = ''POST'',
      content_type = ''application/json'',
      mail_to = ''admin@bbplumbing.co.za'',
      subject = ''New Cart Submission - BlockBusters Plumbing'',
      payload = \<lparr>customer = customer_info s, items = cart s,
                 total = getTotalPrice s, timestamp = now\<rparr>\<rparr>"

text \<open>
  \<open>!customerInfo.name\<close> on a string is true exactly for the empty string. A response
  that is not \<open>ok\<close> throws inside the \<open>try\<close>, so it ends in the same \<open>catch\<close> as a
  rejected \<open>fetch\<close>.
\<close>

definition submitCart :: "fetch_result \<Rightarrow> string \<Rightarrow> page \<Rightarrow> page \<times> effect list" where
  "submitCart outcome now s =
     (if length (cart s) = 0 then (s, [ToastE empty_cart_toast])
      else if cname (customer_info s) = '''' \<or> email (customer_info s) = ''''
        then (s, [ToastE missing_info_toast])
      else
        (case outcome of
           Resolved ok \<Rightarrow>
             if ok
             then (s\<lparr>cart := [], customer_info := empty_customerInfo, isCartOpen := False\<rparr>,
                   [FetchE (build_request now s), ToastE submitted_toast])
             else (s, [FetchE (build_request now s), ToastE failed_toast])
         | Rejected \<Rightarrow> (s, [FetchE (build_request now s), ToastE failed_toast])))"

text \<open>Reading the effects of one call.\<close>

fun toasts_of :: "effect list \<Rightarrow> toast list" where
  "toasts_of [] = []"
| "toasts_of (ToastE t # es) = t # toasts_of es"
| "toasts_of (FetchE r # es) = toasts_of es"

fun requests_of :: "effect list \<Rightarrow> request list" where
  "requests_of [] = []"
| "requests_of (ToastE t # es) = requests_of es"
| "requests_of (FetchE r # es) = r # requests_of es"

text \<open>
  The fields that the specification calls missing: the required fields of the
  customer information that are empty. The source has no such function; it is written
  from the specification's words, to be compared with what the toast says.
\<close>

definition spec_missing_fields :: "customerInfo \<Rightarrow> string list" where
  "spec_missing_fields ci =
     (if cname ci = '''' then [''name''] else []) @ (if email ci = '''' then [''email''] else [])"

text \<open>The two products and the cart of scenario C.\<close>

definition wrench :: product where
  "wrench = PLUMBING_PRODUCTS ! 0"

definition pvc_bundle :: product where
  "pvc_bundle = PLUMBING_PRODUCTS ! 3"

definition jane :: customerInfo where
  "jane = \<lparr>cname = ''Jane'', email = ''jane@x.com'', phone = '''', address = ''''\<rparr>"

definition scenario_page :: page where
  "scenario_page =
     \<lparr>cart = [with_quantity wrench 2, with_quantity pvc_bundle 1], isCartOpen = True,
      customer_info = jane\<rparr>"

section \<open>The organization registry\<close>

text \<open>
  The four Express handlers work on two module variables, the array \<open>organizations\<close>
  and the counter \<open>orgCounter\<close>; here they are the two fields of \<open>registry\<close>, taken and
  returned by every handler. A handler answers by \<open>res.status(...).json(...)\<close>, which is
  the \<open>response\<close> it returns. \<open>Date.now()\<close> and \<open>new Date().toISOString()\<close> are
  parameters.

  The request body is whatever the JSON body parser produced, and the handlers apply
  JavaScript's truthiness and \<open>String(...)\<close> to its properties, so both are modelled on
  JSON values. A property that is absent reads as \<open>undefined\<close>, which is \<open>None\<close>.
  Numbers are integers here, printed in decimal as JavaScript prints an integer below
  \<open>10^21\<close>; fractions and larger numbers are outside the model. An object is the list
  of its properties, each key once, as \<open>JSON.parse\<close> leaves it.

  Every handler body is a \<open>try\<close> whose \<open>catch\<close> answers 500. Nothing in the bodies
  throws on values that come from parsed JSON, so that answer has no branch here.
\<close>

subsection \<open>JSON values as JavaScript sees them\<close>

datatype json =
  JNull
  | JBool bool
  | JNum int
  | JStr string
  | JArr "json list"
  | JObj "(string \<times> json) list"

text \<open>\<open>!v\<close> is the negation of this: \<open>undefined\<close>, \<open>null\<close>, \<open>false\<close>, \<open>0\<close> and \<open>""\<close> are falsy.\<close>

fun truthy :: "json option \<Rightarrow> bool" where
  "truthy None = False"
| "truthy (Some JNull) = False"
| "truthy (Some (JBool b)) = b"
| "truthy (Some (JNum n)) = (n \<noteq> 0)"
| "truthy (Some (JStr s)) = (s \<noteq> [])"
| "truthy (Some (JArr xs)) = True"
| "truthy (Some (JObj kvs)) = True"

text \<open>\<open>v.key\<close>: a property of a parsed object; any other parsed value has no such property.\<close>

fun get_prop :: "json \<Rightarrow> string \<Rightarrow> json option" where
  "get_prop (JObj kvs) k = map_of kvs k"
| "get_prop v k = None"

text \<open>\<open>req.body || {}\<close>.\<close>

definition body_or_empty :: "json option \<Rightarrow> json" where
  "body_or_empty b = (case b of Some v \<Rightarrow> if truthy b then v else JObj [] | None \<Rightarrow> JObj [])"

definition digit_char :: "nat \<Rightarrow> char" where
  "digit_char d = ''0123456789'' ! d"

fun digits :: "nat \<Rightarrow> string" where
  "digits n = (if n < 10 then [digit_char n] else digits (n div 10) @ [digit_char (n mod 10)])"

declare digits.simps [simp del]

fun join_comma :: "string list \<Rightarrow> string" where
  "join_comma [] = []"
| "join_comma [x] = x"
| "join_comma (x # y # ys) = x @ '','' @ join_comma (y # ys)"

text \<open>
  \<open>String(v)\<close>: a string is itself; an array is its elements joined by commas, with
  \<open>null\<close> elements printed as nothing (\<open>Array.prototype.join\<close>); a plain object is
  \<open>[object Object]\<close>.
\<close>

fun js_String :: "json \<Rightarrow> string" where
  "js_String JNull = ''null''"
| "js_String (JBool b) = (if b then ''true'' else ''false'')"
| "js_String (JNum n) = (if n < 0 then ''-'' @ digits (nat (- n)) else digits (nat n))"
| "js_String (JStr s) = s"
| "js_String (JArr xs) = join_comma (map (\<lambda>x. if x = JNull then [] else js_String x) xs)"
| "js_String (JObj kvs) = ''[object Object]''"

subsection \<open>Records, requests and responses\<close>

text \<open>
  Modelled from the spec: the type \<open>Organization\<close> of \<open>@shared/types\<close>, which is not
  among the sources; the specification gives its fields as
  \<open>{id, name, createdAt, logoUrl?, settings?}\<close>. The fields \<open>id\<close> and \<open>name\<close> are
  \<open>oid\<close> and \<open>oname\<close> here.
\<close>

record organization =
  oid :: string
  oname :: string
  createdAt :: string
  logoUrl :: "string option"
  settings :: "json option"

record registry =
  organizations :: "organization list"
  orgCounter :: nat

definition initial_registry :: registry where
  "initial_registry = \<lparr>organizations = [], orgCounter = 1\<rparr>"

text \<open>\<open>req.user\<close>, of which the handler reads \<open>role\<close> and \<open>organizations\<close>.\<close>

record user =
  role :: "json option"
  user_organizations :: "json option"

record org_request =
  body :: "json option"
  params_id :: string
  req_user :: "user option"

datatype res_body =
  ErrorJson string
  | OrgJson organization
  | OrgsJson "organization list"
  | NoBody

record response =
  status :: nat
  res_body :: res_body

subsection \<open>Handlers\<close>

definition handleCreateOrganization ::
  "nat \<Rightarrow> string \<Rightarrow> org_request \<Rightarrow> registry \<Rightarrow> registry \<times> response" where
  "handleCreateOrganization now_ms now_iso req st =
     (let b = body_or_empty (body req);
          name = get_prop b ''name'';
          logo = get_prop b ''logoUrl'';
          sett = get_prop b ''settings''
      in case name of
           None \<Rightarrow> (st, \<lparr>status = 400, res_body = ErrorJson ''Organization name is required''\<rparr>)
         | Some nm \<Rightarrow>
             if \<not> truthy name
             then (st, \<lparr>status = 400, res_body = ErrorJson ''Organization name is required''\<rparr>)
             else
               let newOrg =
                 \<lparr>oid = ''org-'' @ digits now_ms @ ''-'' @ digits (orgCounter st),
                  oname = js_String nm,
                  createdAt = now_iso,
                  logoUrl = (case logo of Some l \<Rightarrow> if truthy logo then Some (js_String l) else None
                             | None \<Rightarrow> None),
                  settings = (if truthy sett then sett else None)\<rparr>
               in (\<lparr>organizations = organizations st @ [newOrg],
                    orgCounter = orgCounter st + 1\<rparr>,
                   \<lparr>status = 201, res_body = OrgJson newOrg\<rparr>))"

text \<open>\<open>currentUser?.role === 'super_admin'\<close> and the array test on \<open>currentUser?.organizations\<close>.\<close>

definition is_super_admin :: "user option \<Rightarrow> bool" where
  "is_super_admin u = (case u of Some usr \<Rightarrow> role usr = Some (JStr ''super_admin'') | None \<Rightarrow> False)"

definition uOrgs :: "user option \<Rightarrow> json list" where
  "uOrgs u =
     (case u of
        Some usr \<Rightarrow> (case user_organizations usr of Some (JArr xs) \<Rightarrow> xs | _ \<Rightarrow> [])
      | None \<Rightarrow> [])"

definition handleGetOrganizations :: "org_request \<Rightarrow> registry \<Rightarrow> registry \<times> response" where
  "handleGetOrganizations req st =
     (if is_super_admin (req_user req)
      then (st, \<lparr>status = 200, res_body = OrgsJson (organizations st)\<rparr>)
      else (st, \<lparr>status = 200,
                 res_body = OrgsJson (filter (\<lambda>org. JStr (oid org) \<in> set (uOrgs (req_user req)))
                                       (organizations st))\<rparr>))"

text \<open>\<open>findIndex\<close>: the first index whose element satisfies the test, \<open>None\<close> for \<open>-1\<close>.\<close>

fun findIndex :: "('a \<Rightarrow> bool) \<Rightarrow> 'a list \<Rightarrow> nat option" where
  "findIndex P [] = None"
| "findIndex P (x # xs) =
     (if P x then Some 0 else (case findIndex P xs of Some i \<Rightarrow> Some (Suc i) | None \<Rightarrow> None))"

definition handleUpdateOrganization :: "org_request \<Rightarrow> registry \<Rightarrow> registry \<times> response" where
  "handleUpdateOrganization req st =
     (let updates = body_or_empty (body req)
      in case findIndex (\<lambda>org. oid org = params_id req) (organizations st) of
           None \<Rightarrow> (st, \<lparr>status = 404, res_body = ErrorJson ''Organization not found''\<rparr>)
         | Some idx \<Rightarrow>
             let old = organizations st ! idx;
                 updated = old
                   \<lparr>oname := (case get_prop updates ''name'' of
                                Some v \<Rightarrow> if truthy (Some v) then js_String v else oname old
                              | None \<Rightarrow> oname old),
                    logoUrl := (case get_prop updates ''logoUrl'' of
                                Some v \<Rightarrow> if truthy (Some v) then Some (js_String v) else logoUrl old
                              | None \<Rightarrow> logoUrl old),
                    settings := (if truthy (get_prop updates ''settings'')
                                 then get_prop updates ''settings'' else settings old)\<rparr>
             in (st\<lparr>organizations := (organizations st)[idx := updated]\<rparr>,
                 \<lparr>status = 200, res_body = OrgJson updated\<rparr>))"

text \<open>\<open>organizations.splice(idx, 1)\<close> and an empty 204.\<close>

definition handleDeleteOrganization :: "org_request \<Rightarrow> registry \<Rightarrow> registry \<times> response" where
  "handleDeleteOrganization req st =
     (case findIndex (\<lambda>org. oid org = params_id req) (organizations st) of
        None \<Rightarrow> (st, \<lparr>status = 404, res_body = ErrorJson ''Organization not found''\<rparr>)
      | Some idx \<Rightarrow>
          (st\<lparr>organizations := take idx (organizations st) @ drop (Suc idx) (organizations st)\<rparr>,
           \<lparr>status = 204, res_body = NoBody\<rparr>))"

text \<open>A registry with two organizations and four callers, for concrete runs.\<close>

definition acme :: organization where
  "acme = \<lparr>oid = ''org-1700000000000-1'', oname = ''Acme'',
           createdAt = ''2023-11-14T22:13:20.000Z'', logoUrl = None, settings = None\<rparr>"

definition globex :: organization where
  "globex = \<lparr>oid = ''org-1700000000500-2'', oname = ''Globex'',
             createdAt = ''2023-11-14T22:13:20.500Z'', logoUrl = None, settings = None\<rparr>"

definition two_orgs :: registry where
  "two_orgs = \<lparr>organizations = [acme, globex], orgCounter = 3\<rparr>"

definition super_admin_user :: user where
  "super_admin_user = \<lparr>role = Some (JStr ''super_admin''), user_organizations = None\<rparr>"

definition staff_user :: user where
  "staff_user = \<lparr>role = Some (JStr ''staff''),
                 user_organizations = Some (JArr [JStr ''org-1700000000500-2'', JNum 7])\<rparr>"

definition unscoped_user :: user where
  "unscoped_user = \<lparr>role = Some (JStr ''staff''), user_organizations = None\<rparr>"

definition get_request :: "user option \<Rightarrow> org_request" where
  "get_request u = \<lparr>body = None, params_id = '''', req_user = u\<rparr>"

text \<open>The invariant the name check of \<open>handleCreateOrganization\<close> is there for.\<close>

definition names_ok :: "registry \<Rightarrow> bool" where
  "names_ok st \<longleftrightarrow> (\<forall>org \<in> set (organizations st). oname org \<noteq> '''')"

text \<open>The \<open>name\<close> of a request body is a string, or there is none.\<close>

definition string_name :: "org_request \<Rightarrow> bool" where
  "string_name req \<longleftrightarrow>
     (case get_prop (body_or_empty (body req)) ''name'' of
        None \<Rightarrow> True | Some (JStr s) \<Rightarrow> True | Some _ \<Rightarrow> False)"

section \<open>Properties of the cart\<close>

lemma find_None_pid: "find (\<lambda>item. pid item = i) c = None \<longleftrightarrow> i \<notin> pid ` set c"
  by (auto simp: find_None_iff)

lemma pid_bump:
  "pid \<circ> (\<lambda>item. if pid item = i then item\<lparr>quantity := f item\<rparr> else item) = pid"
  by (rule ext) simp

lemma map_pid_bump:
  "map pid (map (\<lambda>item. if pid item = i then item\<lparr>quantity := f item\<rparr> else item) c) = map pid c"
  by (simp add: pid_bump)

lemma addToCart_updater_ok:
  assumes "cart_ok c"
  shows "cart_ok (addToCart_updater p c)"
proof (cases "find (\<lambda>item. pid item = pid p) c")
  case None
  then have "pid p \<notin> pid ` set c" by (simp add: find_None_pid)
  with assms None show ?thesis
    by (auto simp: addToCart_updater_def cart_ok_def with_quantity_def)
next
  case (Some e)
  with assms show ?thesis
    unfolding addToCart_updater_def cart_ok_def
    by (auto simp: pid_bump)
qed

lemma removeFromCart_ok: "cart_ok (cart s) \<Longrightarrow> cart_ok (cart (removeFromCart i s))"
  by (auto simp: removeFromCart_def cart_ok_def distinct_map_filter)

lemma updateQuantity_ok: "cart_ok (cart s) \<Longrightarrow> cart_ok (cart (updateQuantity i q s))"
proof (cases "q \<le> 0")
  case True
  assume "cart_ok (cart s)"
  with True show ?thesis by (simp add: updateQuantity_def removeFromCart_ok)
next
  case False
  assume "cart_ok (cart s)"
  with False show ?thesis
    unfolding updateQuantity_def cart_ok_def by (auto simp: pid_bump)
qed

lemma apply_op_ok: "cart_ok (cart s) \<Longrightarrow> cart_ok (cart (apply_op s x))"
  by (cases x) (simp_all add: addToCart_def addToCart_updater_ok removeFromCart_ok updateQuantity_ok)

lemma foldl_apply_op_ok: "cart_ok (cart s) \<Longrightarrow> cart_ok (cart (foldl apply_op s ops))"
  by (induction ops arbitrary: s) (simp_all add: apply_op_ok)

lemma foldl_total:
  "foldl (\<lambda>total item. total + price item * of_int (quantity item)) a c = a + line_sum c"
  by (induction c arbitrary: a) (simp_all add: line_sum_def add.assoc)

lemma getTotalPrice_line_sum: "getTotalPrice s = line_sum (cart s)"
  by (simp add: getTotalPrice_def foldl_total)

text \<open>
  C1. Whatever finite sequence of \<open>addToCart\<close>, \<open>removeFromCart\<close> and \<open>updateQuantity\<close>
  calls is applied to the empty cart of a fresh page, the cart that results has no line
  with a quantity of zero or less, has at most one line for each product id, and
  \<open>getTotalPrice\<close> returns the sum of price times quantity over its lines.
\<close>

theorem C1_cart_invariant:
  "(\<forall>l \<in> set (cart (run_ops ops)). \<not> quantity l \<le> 0)
   \<and> distinct (map pid (cart (run_ops ops)))
   \<and> getTotalPrice (run_ops ops)
       = sum_list (map (\<lambda>l. price l * of_int (quantity l)) (cart (run_ops ops)))"
proof -
  have "cart_ok (cart initial_page)"
    by (simp add: initial_page_def cart_ok_def)
  then have "cart_ok (cart (run_ops ops))"
    unfolding run_ops_def by (rule foldl_apply_op_ok)
  then show ?thesis
    by (auto simp: cart_ok_def getTotalPrice_line_sum line_sum_def)
qed

theorem C1_cart_invariant_witness:
  "with_quantity wrench 2
     \<in> set (cart (run_ops [AddItem wrench, AddItem pvc_bundle, AddItem wrench,
                             SetQuantity ''4'' 0, AddItem pvc_bundle]))
   \<and> \<not> quantity (with_quantity wrench 2) \<le> 0
   \<and> distinct (map pid (cart (run_ops [AddItem wrench, AddItem pvc_bundle, AddItem wrench,
                             SetQuantity ''4'' 0, AddItem pvc_bundle])))
   \<and> getTotalPrice (run_ops [AddItem wrench, AddItem pvc_bundle, AddItem wrench,
                             SetQuantity ''4'' 0, AddItem pvc_bundle]) = 4343 / 4"
proof -
  let ?ops = "[AddItem wrench, AddItem pvc_bundle, AddItem wrench,
               SetQuantity ''4'' 0, AddItem pvc_bundle]"
  have c: "cart (run_ops ?ops) = [with_quantity wrench 2, with_quantity pvc_bundle 1]"
    by (simp add: run_ops_def initial_page_def addToCart_def addToCart_updater_def
        updateQuantity_def removeFromCart_def with_quantity_def wrench_def pvc_bundle_def
        PLUMBING_PRODUCTS_def)
  have h: "with_quantity wrench 2 \<in> set (cart (run_ops ?ops))"
    by (simp add: c)
  from C1_cart_invariant [of ?ops] h
  have q: "\<not> quantity (with_quantity wrench 2) \<le> 0" by blast
  have d: "distinct (map pid (cart (run_ops ?ops)))"
    using C1_cart_invariant [of ?ops] by blast
  have "getTotalPrice (run_ops ?ops)
        = sum_list (map (\<lambda>l. price l * of_int (quantity l)) (cart (run_ops ?ops)))"
    using C1_cart_invariant [of ?ops] by blast
  also have "\<dots> = 4343 / 4"
    unfolding c by (simp add: with_quantity_def wrench_def pvc_bundle_def PLUMBING_PRODUCTS_def)
  finally show ?thesis using h q d by simp
qed

lemma addToCart_present:
  assumes "pid p \<in> pid ` set c"
  shows "addToCart_updater p c =
         map (\<lambda>item. if pid item = pid p then item\<lparr>quantity := quantity item + 1\<rparr> else item) c"
proof -
  from assms have "find (\<lambda>item. pid item = pid p) c \<noteq> None"
    by (simp add: find_None_pid)
  then show ?thesis by (auto simp: addToCart_updater_def)
qed

lemma addToCart_absent:
  assumes "pid p \<notin> pid ` set c"
  shows "addToCart_updater p c = c @ [with_quantity p 1]"
  using assms by (simp add: addToCart_updater_def find_None_pid[symmetric])

lemma pid_with_quantity: "pid (with_quantity p q) = pid p"
  by (simp add: with_quantity_def)

lemma map_absent:
  "i \<notin> pid ` set c \<Longrightarrow> map (\<lambda>item. if pid item = i then f item else item) c = c"
  by (induction c) auto

lemma filter_absent:
  "i \<notin> pid ` set c \<Longrightarrow> filter (\<lambda>item. pid item \<noteq> i) c = c"
  by (induction c) auto

lemma addToCart_twice:
  assumes "pid p \<notin> pid ` set c"
  shows "addToCart_updater p (addToCart_updater p c) = c @ [with_quantity p 2]"
proof -
  have "pid p \<in> pid ` set (c @ [with_quantity p 1])"
    by (simp add: pid_with_quantity)
  then have "addToCart_updater p (c @ [with_quantity p 1]) =
      map (\<lambda>item. if pid item = pid p then item\<lparr>quantity := quantity item + 1\<rparr> else item)
        (c @ [with_quantity p 1])"
    by (rule addToCart_present)
  also have "\<dots> = c @ [with_quantity p 2]"
    using assms by (simp add: map_absent) (simp add: with_quantity_def)
  finally show ?thesis using assms by (simp add: addToCart_absent)
qed

text \<open>
  C6. For every cart and every product, \<open>addToCart\<close> leaves the number and order of the
  lines as they are and raises the quantity of the line with the product's id by
  exactly one when the cart has such a line, every other line staying as it was;
  otherwise it appends one line with quantity 1 at the end of the cart. Adding a
  product twice to a cart that does not have it ends with one line of quantity 2 at the
  end, not with two lines. The rest of the page state is untouched.
\<close>

theorem C6_addToCart:
  "(pid p \<in> pid ` set (cart s) \<longrightarrow>
      length (cart (fst (addToCart p s))) = length (cart s)
      \<and> (\<forall>k < length (cart s).
            cart (fst (addToCart p s)) ! k =
              (if pid (cart s ! k) = pid p
               then (cart s ! k)\<lparr>quantity := quantity (cart s ! k) + 1\<rparr>
               else cart s ! k)))
   \<and> (pid p \<notin> pid ` set (cart s) \<longrightarrow>
        cart (fst (addToCart p s)) = cart s @ [with_quantity p 1]
        \<and> quantity (with_quantity p 1) = 1
        \<and> cart (fst (addToCart p (fst (addToCart p s)))) = cart s @ [with_quantity p 2]
        \<and> quantity (with_quantity p 2) = 2)
   \<and> isCartOpen (fst (addToCart p s)) = isCartOpen s
   \<and> customer_info (fst (addToCart p s)) = customer_info s"
proof -
  have cart_add: "cart (fst (addToCart p s)) = addToCart_updater p (cart s)" for p s
    by (simp add: addToCart_def)
  have present: "pid p \<in> pid ` set (cart s) \<longrightarrow>
      length (cart (fst (addToCart p s))) = length (cart s)
      \<and> (\<forall>k < length (cart s).
            cart (fst (addToCart p s)) ! k =
              (if pid (cart s ! k) = pid p
               then (cart s ! k)\<lparr>quantity := quantity (cart s ! k) + 1\<rparr>
               else cart s ! k))"
    by (simp add: cart_add addToCart_present)
  have absent: "pid p \<notin> pid ` set (cart s) \<longrightarrow>
        cart (fst (addToCart p s)) = cart s @ [with_quantity p 1]
        \<and> cart (fst (addToCart p (fst (addToCart p s)))) = cart s @ [with_quantity p 2]"
  proof
    assume a: "pid p \<notin> pid ` set (cart s)"
    have one: "cart (fst (addToCart p s)) = cart s @ [with_quantity p 1]"
      using a by (simp add: cart_add addToCart_absent)
    have "cart (fst (addToCart p (fst (addToCart p s))))
          = addToCart_updater p (addToCart_updater p (cart s))"
      by (simp add: cart_add)
    also have "\<dots> = cart s @ [with_quantity p 2]"
      using a by (rule addToCart_twice)
    finally show "cart (fst (addToCart p s)) = cart s @ [with_quantity p 1]
        \<and> cart (fst (addToCart p (fst (addToCart p s)))) = cart s @ [with_quantity p 2]"
      using one by simp
  qed
  have q: "quantity (with_quantity p 1) = 1" "quantity (with_quantity p 2) = 2"
    by (simp_all add: with_quantity_def)
  have rest: "isCartOpen (fst (addToCart p s)) = isCartOpen s"
    "customer_info (fst (addToCart p s)) = customer_info s"
    by (simp_all add: addToCart_def)
  from present absent q rest show ?thesis by blast
qed

theorem C6_addToCart_witness:
  "pid wrench \<in> pid ` set (cart scenario_page)
   \<and> cart (fst (addToCart wrench scenario_page))
       = [with_quantity wrench 3, with_quantity pvc_bundle 1]
   \<and> pid wrench \<notin> pid ` set (cart initial_page)
   \<and> cart (fst (addToCart wrench (fst (addToCart wrench initial_page))))
       = [with_quantity wrench 2]"
proof -
  let ?c = "cart (fst (addToCart wrench scenario_page))"
  have ids: "pid wrench = ''1''" "pid pvc_bundle = ''4''"
    by (simp_all add: wrench_def pvc_bundle_def PLUMBING_PRODUCTS_def)
  have c: "cart scenario_page = [with_quantity wrench 2, with_quantity pvc_bundle 1]"
    by (simp add: scenario_page_def)
  have h1: "pid wrench \<in> pid ` set (cart scenario_page)"
    by (simp add: c pid_with_quantity)
  have h2: "pid wrench \<notin> pid ` set (cart initial_page)"
    by (simp add: initial_page_def)
  from C6_addToCart [of wrench scenario_page] h1
  have len: "length ?c = length (cart scenario_page)"
    and nth: "\<forall>k < length (cart scenario_page).
            ?c ! k = (if pid (cart scenario_page ! k) = pid wrench
               then (cart scenario_page ! k)\<lparr>quantity := quantity (cart scenario_page ! k) + 1\<rparr>
               else cart scenario_page ! k)"
    by blast+
  from nth have "?c ! 0 = with_quantity wrench 3" "?c ! 1 = with_quantity pvc_bundle 1"
    by (simp_all add: c pid_with_quantity ids) (simp add: with_quantity_def)
  with len have r1: "?c = [with_quantity wrench 3, with_quantity pvc_bundle 1]"
    by (simp add: c list_eq_iff_nth_eq less_Suc_eq)
  from C6_addToCart [of wrench initial_page] h2
  have "cart (fst (addToCart wrench (fst (addToCart wrench initial_page))))
        = cart initial_page @ [with_quantity wrench 2]"
    by blast
  then have r2: "cart (fst (addToCart wrench (fst (addToCart wrench initial_page))))
        = [with_quantity wrench 2]"
    by (simp add: initial_page_def)
  from h1 r1 h2 r2 show ?thesis by blast
qed

lemma updateQuantity_nonpositive: "q \<le> 0 \<Longrightarrow> updateQuantity i q s = removeFromCart i s"
  by (simp add: updateQuantity_def)

lemma updateQuantity_absent:
  assumes "i \<notin> pid ` set (cart s)"
  shows "updateQuantity i q s = s"
  using assms by (simp add: updateQuantity_def removeFromCart_def map_absent filter_absent)

lemma removeFromCart_absent: "i \<notin> pid ` set (cart s) \<Longrightarrow> removeFromCart i s = s"
  by (simp add: removeFromCart_def filter_absent)

text \<open>
  C7. For every cart and id, \<open>updateQuantity\<close> with a quantity of zero or less gives the
  same state as \<open>removeFromCart\<close>; with a quantity of at least one it sets the quantity
  of the line with that id to exactly the given one and changes nothing else, and it
  does nothing when no line has that id; \<open>removeFromCart\<close> of an id that is not in the
  cart does nothing either.
\<close>

theorem C7_updateQuantity:
  "(q \<le> 0 \<longrightarrow> updateQuantity i q s = removeFromCart i s)
   \<and> (1 \<le> q \<longrightarrow> i \<in> pid ` set (cart s) \<longrightarrow>
        length (cart (updateQuantity i q s)) = length (cart s)
        \<and> (\<forall>k < length (cart s).
              cart (updateQuantity i q s) ! k =
                (if pid (cart s ! k) = i then (cart s ! k)\<lparr>quantity := q\<rparr> else cart s ! k))
        \<and> isCartOpen (updateQuantity i q s) = isCartOpen s
        \<and> customer_info (updateQuantity i q s) = customer_info s)
   \<and> (1 \<le> q \<longrightarrow> i \<notin> pid ` set (cart s) \<longrightarrow> updateQuantity i q s = s)
   \<and> (i \<notin> pid ` set (cart s) \<longrightarrow> removeFromCart i s = s)"
proof -
  have low: "q \<le> 0 \<longrightarrow> updateQuantity i q s = removeFromCart i s"
    by (simp add: updateQuantity_nonpositive)
  have set: "1 \<le> q \<longrightarrow> i \<in> pid ` set (cart s) \<longrightarrow>
        length (cart (updateQuantity i q s)) = length (cart s)
        \<and> (\<forall>k < length (cart s).
              cart (updateQuantity i q s) ! k =
                (if pid (cart s ! k) = i then (cart s ! k)\<lparr>quantity := q\<rparr> else cart s ! k))
        \<and> isCartOpen (updateQuantity i q s) = isCartOpen s
        \<and> customer_info (updateQuantity i q s) = customer_info s"
    by (simp add: updateQuantity_def)
  have noop: "1 \<le> q \<longrightarrow> i \<notin> pid ` set (cart s) \<longrightarrow> updateQuantity i q s = s"
    by (simp add: updateQuantity_absent)
  have rem: "i \<notin> pid ` set (cart s) \<longrightarrow> removeFromCart i s = s"
    by (simp add: removeFromCart_absent)
  from low set noop rem show ?thesis by blast
qed

theorem C7_updateQuantity_witness:
  "(0::int) \<le> 0 \<and> updateQuantity ''4'' 0 scenario_page = removeFromCart ''4'' scenario_page
   \<and> cart (removeFromCart ''4'' scenario_page) = [with_quantity wrench 2]
   \<and> (1::int) \<le> 5 \<and> ''4'' \<in> pid ` set (cart scenario_page)
   \<and> cart (updateQuantity ''4'' 5 scenario_page)
       = [with_quantity wrench 2, with_quantity pvc_bundle 5]
   \<and> ''7'' \<notin> pid ` set (cart scenario_page)
   \<and> updateQuantity ''7'' 5 scenario_page = scenario_page
   \<and> removeFromCart ''7'' scenario_page = scenario_page"
proof -
  let ?c = "cart (updateQuantity ''4'' 5 scenario_page)"
  have ids: "pid wrench = ''1''" "pid pvc_bundle = ''4''"
    by (simp_all add: wrench_def pvc_bundle_def PLUMBING_PRODUCTS_def)
  have c: "cart scenario_page = [with_quantity wrench 2, with_quantity pvc_bundle 1]"
    by (simp add: scenario_page_def)
  have h0: "(0::int) \<le> 0" and h5: "(1::int) \<le> 5" by simp_all
  have h4: "''4'' \<in> pid ` set (cart scenario_page)"
    by (simp add: c pid_with_quantity ids)
  have h7: "''7'' \<notin> pid ` set (cart scenario_page)"
    by (simp add: c pid_with_quantity ids)
  from C7_updateQuantity [of 0 "''4''" scenario_page] h0
  have r0: "updateQuantity ''4'' 0 scenario_page = removeFromCart ''4'' scenario_page"
    by blast
  have r0': "cart (removeFromCart ''4'' scenario_page) = [with_quantity wrench 2]"
    by (simp add: removeFromCart_def c pid_with_quantity ids)
  from C7_updateQuantity [of 5 "''4''" scenario_page] h5 h4
  have len: "length ?c = length (cart scenario_page)"
    and nth: "\<forall>k < length (cart scenario_page).
            ?c ! k = (if pid (cart scenario_page ! k) = ''4''
               then (cart scenario_page ! k)\<lparr>quantity := 5\<rparr>
               else cart scenario_page ! k)"
    by blast+
  from nth have "?c ! 0 = with_quantity wrench 2" "?c ! 1 = with_quantity pvc_bundle 5"
    by (simp_all add: c pid_with_quantity ids) (simp add: with_quantity_def)
  with len have r5: "?c = [with_quantity wrench 2, with_quantity pvc_bundle 5]"
    by (simp add: c list_eq_iff_nth_eq less_Suc_eq)
  from C7_updateQuantity [of 5 "''7''" scenario_page] h5 h7
  have r7: "updateQuantity ''7'' 5 scenario_page = scenario_page"
    and r7': "removeFromCart ''7'' scenario_page = scenario_page"
    by blast+
  from h0 r0 r0' h5 h4 r5 h7 r7 r7' show ?thesis by blast
qed

subsection \<open>Checkout\<close>

text \<open>The four exits of \<open>submitCart\<close>, one lemma each.\<close>

lemma submitCart_empty:
  "cart s = [] \<Longrightarrow> submitCart outcome now s = (s, [ToastE empty_cart_toast])"
  by (simp add: submitCart_def)

lemma submitCart_missing:
  "cart s \<noteq> [] \<Longrightarrow> cname (customer_info s) = '''' \<or> email (customer_info s) = '''' \<Longrightarrow>
   submitCart outcome now s = (s, [ToastE missing_info_toast])"
  by (simp add: submitCart_def)

lemma submitCart_success:
  "cart s \<noteq> [] \<Longrightarrow> cname (customer_info s) \<noteq> '''' \<Longrightarrow> email (customer_info s) \<noteq> '''' \<Longrightarrow>
   submitCart (Resolved True) now s =
     (s\<lparr>cart := [], customer_info := empty_customerInfo, isCartOpen := False\<rparr>,
      [FetchE (build_request now s), ToastE submitted_toast])"
  by (simp add: submitCart_def)

lemma submitCart_failure:
  "cart s \<noteq> [] \<Longrightarrow> cname (customer_info s) \<noteq> '''' \<Longrightarrow> email (customer_info s) \<noteq> '''' \<Longrightarrow>
   outcome \<noteq> Resolved True \<Longrightarrow>
   submitCart outcome now s = (s, [FetchE (build_request now s), ToastE failed_toast])"
  by (cases outcome) (auto simp: submitCart_def)

lemma scenario_total: "getTotalPrice scenario_page = 1085.75"
  by (simp add: getTotalPrice_def scenario_page_def with_quantity_def wrench_def pvc_bundle_def
      PLUMBING_PRODUCTS_def)

lemma scenario_pre:
  "cart scenario_page \<noteq> []" "cname (customer_info scenario_page) \<noteq> ''''"
  "email (customer_info scenario_page) \<noteq> ''''"
  by (simp_all add: scenario_page_def jane_def)

text \<open>
  C2. When the cart is not empty, name and email are not empty and the request is
  answered with success, \<open>submitCart\<close> sends exactly one request, emits exactly one
  toast, the success toast (no destructive variant), and leaves the cart empty, the
  four fields of the customer information empty and the cart view closed. For the cart
  of scenario C (two wrench sets at 450.00 and one PVC bundle at 185.75, customer Jane)
  the one request that is sent carries the two lines and the total 1085.75.
\<close>

theorem C2_submit_success:
  "(cart s \<noteq> [] \<and> cname (customer_info s) \<noteq> '''' \<and> email (customer_info s) \<noteq> '''' \<longrightarrow>
      cart (fst (submitCart (Resolved True) now s)) = []
      \<and> customer_info (fst (submitCart (Resolved True) now s))
          = \<lparr>cname = '''', email = '''', phone = '''', address = ''''\<rparr>
      \<and> isCartOpen (fst (submitCart (Resolved True) now s)) = False
      \<and> toasts_of (snd (submitCart (Resolved True) now s)) = [submitted_toast]
      \<and> variant submitted_toast = None
      \<and> requests_of (snd (submitCart (Resolved True) now s)) = [build_request now s])
   \<and> map (\<lambda>l. (pid l, quantity l, price l)) (cart scenario_page)
       = [(''1'', 2, 450.00), (''4'', 1, 185.75)]
   \<and> map (\<lambda>r. total (payload r)) (requests_of (snd (submitCart (Resolved True) now scenario_page)))
       = [1085.75]
   \<and> map (\<lambda>r. items (payload r)) (requests_of (snd (submitCart (Resolved True) now scenario_page)))
       = [cart scenario_page]
   \<and> cart (fst (submitCart (Resolved True) now scenario_page)) = []"
proof -
  have general:
    "cart s \<noteq> [] \<and> cname (customer_info s) \<noteq> '''' \<and> email (customer_info s) \<noteq> '''' \<longrightarrow>
      cart (fst (submitCart (Resolved True) now s)) = []
      \<and> customer_info (fst (submitCart (Resolved True) now s))
          = \<lparr>cname = '''', email = '''', phone = '''', address = ''''\<rparr>
      \<and> isCartOpen (fst (submitCart (Resolved True) now s)) = False
      \<and> toasts_of (snd (submitCart (Resolved True) now s)) = [submitted_toast]
      \<and> variant submitted_toast = None
      \<and> requests_of (snd (submitCart (Resolved True) now s)) = [build_request now s]"
    by (simp add: submitCart_success empty_customerInfo_def submitted_toast_def)
  have lines: "map (\<lambda>l. (pid l, quantity l, price l)) (cart scenario_page)
       = [(''1'', 2, 450.00), (''4'', 1, 185.75)]"
    by (simp add: scenario_page_def with_quantity_def wrench_def pvc_bundle_def
        PLUMBING_PRODUCTS_def)
  have sub: "submitCart (Resolved True) now scenario_page =
     (scenario_page\<lparr>cart := [], customer_info := empty_customerInfo, isCartOpen := False\<rparr>,
      [FetchE (build_request now scenario_page), ToastE submitted_toast])"
    by (rule submitCart_success) (rule scenario_pre)+
  have tot: "map (\<lambda>r. total (payload r))
       (requests_of (snd (submitCart (Resolved True) now scenario_page))) = [1085.75]"
    unfolding sub by (simp add: build_request_def scenario_total)
  have its: "map (\<lambda>r. items (payload r))
       (requests_of (snd (submitCart (Resolved True) now scenario_page))) = [cart scenario_page]"
    unfolding sub by (simp add: build_request_def)
  have emp: "cart (fst (submitCart (Resolved True) now scenario_page)) = []"
    unfolding sub by simp
  from general lines tot its emp show ?thesis by blast
qed

theorem C2_submit_success_witness:
  "cart scenario_page \<noteq> [] \<and> cname (customer_info scenario_page) \<noteq> ''''
   \<and> email (customer_info scenario_page) \<noteq> ''''
   \<and> cart (fst (submitCart (Resolved True) ''2024-05-01T10:00:00.000Z'' scenario_page)) = []
   \<and> customer_info (fst (submitCart (Resolved True) ''2024-05-01T10:00:00.000Z'' scenario_page))
       = \<lparr>cname = '''', email = '''', phone = '''', address = ''''\<rparr>
   \<and> toasts_of (snd (submitCart (Resolved True) ''2024-05-01T10:00:00.000Z'' scenario_page))
       = [submitted_toast]
   \<and> map (\<lambda>r. total (payload r))
        (requests_of (snd (submitCart (Resolved True) ''2024-05-01T10:00:00.000Z'' scenario_page)))
       = [1085.75]"
  using scenario_pre C2_submit_success [of scenario_page "''2024-05-01T10:00:00.000Z''"]
  by blast

text \<open>
  C3. In every state of cart and customer information, a \<open>submitCart\<close> whose request
  would be answered without success, or would not complete at all, leaves the whole
  page state as it was and emits exactly one toast, a destructive one; the toasts of a
  rejected answer and of a transport error are the same. When the cart is not empty and
  name and email are present, so that the request is really sent, that one toast is
  the failure toast "Submission failed".
\<close>

theorem C3_submit_failure:
  "outcome \<noteq> Resolved True \<longrightarrow>
     fst (submitCart outcome now s) = s
     \<and> (\<exists>t. toasts_of (snd (submitCart outcome now s)) = [t] \<and> variant t = Some Destructive)
     \<and> toasts_of (snd (submitCart (Resolved False) now s))
         = toasts_of (snd (submitCart Rejected now s))
     \<and> (cart s \<noteq> [] \<and> cname (customer_info s) \<noteq> '''' \<and> email (customer_info s) \<noteq> '''' \<longrightarrow>
          snd (submitCart outcome now s) = [FetchE (build_request now s), ToastE failed_toast]
          \<and> title failed_toast = ''Submission failed'')"
proof
  assume f: "outcome \<noteq> Resolved True"
  have same: "toasts_of (snd (submitCart (Resolved False) now s))
         = toasts_of (snd (submitCart Rejected now s))"
    by (simp add: submitCart_def)
  have sent: "cart s \<noteq> [] \<and> cname (customer_info s) \<noteq> '''' \<and> email (customer_info s) \<noteq> '''' \<longrightarrow>
          snd (submitCart outcome now s) = [FetchE (build_request now s), ToastE failed_toast]
          \<and> title failed_toast = ''Submission failed''"
    using f by (simp add: submitCart_failure failed_toast_def)
  consider (empty) "cart s = []"
    | (missing) "cart s \<noteq> []" "cname (customer_info s) = '''' \<or> email (customer_info s) = ''''"
    | (sent) "cart s \<noteq> []" "cname (customer_info s) \<noteq> ''''" "email (customer_info s) \<noteq> ''''"
    by blast
  then have "fst (submitCart outcome now s) = s
     \<and> (\<exists>t. toasts_of (snd (submitCart outcome now s)) = [t] \<and> variant t = Some Destructive)"
  proof cases
    case empty
    then show ?thesis by (simp add: submitCart_empty empty_cart_toast_def)
  next
    case missing
    then show ?thesis by (simp add: submitCart_missing missing_info_toast_def)
  next
    case sent
    with f show ?thesis by (simp add: submitCart_failure failed_toast_def)
  qed
  with same sent show "fst (submitCart outcome now s) = s
     \<and> (\<exists>t. toasts_of (snd (submitCart outcome now s)) = [t] \<and> variant t = Some Destructive)
     \<and> toasts_of (snd (submitCart (Resolved False) now s))
         = toasts_of (snd (submitCart Rejected now s))
     \<and> (cart s \<noteq> [] \<and> cname (customer_info s) \<noteq> '''' \<and> email (customer_info s) \<noteq> '''' \<longrightarrow>
          snd (submitCart outcome now s) = [FetchE (build_request now s), ToastE failed_toast]
          \<and> title failed_toast = ''Submission failed'')"
    by blast
qed

theorem C3_submit_failure_witness:
  "Resolved False \<noteq> Resolved True
   \<and> cart scenario_page \<noteq> [] \<and> cname (customer_info scenario_page) \<noteq> ''''
   \<and> email (customer_info scenario_page) \<noteq> ''''
   \<and> fst (submitCart (Resolved False) ''2024-05-01T10:00:00.000Z'' scenario_page) = scenario_page
   \<and> snd (submitCart (Resolved False) ''2024-05-01T10:00:00.000Z'' scenario_page)
       = [FetchE (build_request ''2024-05-01T10:00:00.000Z'' scenario_page), ToastE failed_toast]
   \<and> toasts_of (snd (submitCart (Resolved False) ''2024-05-01T10:00:00.000Z'' scenario_page))
       = toasts_of (snd (submitCart Rejected ''2024-05-01T10:00:00.000Z'' scenario_page))"
proof -
  have h: "Resolved False \<noteq> Resolved True" by simp
  from h scenario_pre
    C3_submit_failure [of "Resolved False" "''2024-05-01T10:00:00.000Z''" scenario_page]
  show ?thesis by blast
qed

text \<open>
  C4. With an empty cart \<open>submitCart\<close> takes the empty-cart exit: whatever the network
  would have done, it sends no request, emits exactly one toast, the destructive
  "Cart is empty", and leaves the page state, so the empty cart and the customer
  information, as it was.
\<close>

theorem C4_submit_empty_cart:
  "cart s = [] \<longrightarrow>
     requests_of (snd (submitCart outcome now s)) = []
     \<and> toasts_of (snd (submitCart outcome now s)) = [empty_cart_toast]
     \<and> title empty_cart_toast = ''Cart is empty''
     \<and> variant empty_cart_toast = Some Destructive
     \<and> fst (submitCart outcome now s) = s
     \<and> cart (fst (submitCart outcome now s)) = []
     \<and> customer_info (fst (submitCart outcome now s)) = customer_info s"
  by (simp add: submitCart_empty empty_cart_toast_def)

theorem C4_submit_empty_cart_witness:
  "cart initial_page = []
   \<and> requests_of (snd (submitCart (Resolved True) ''2024-05-01T10:00:00.000Z'' initial_page)) = []
   \<and> toasts_of (snd (submitCart (Resolved True) ''2024-05-01T10:00:00.000Z'' initial_page))
       = [empty_cart_toast]
   \<and> cart (fst (submitCart (Resolved True) ''2024-05-01T10:00:00.000Z'' initial_page)) = []"
proof -
  have h: "cart initial_page = []" by (simp add: initial_page_def)
  from h C4_submit_empty_cart [of initial_page "Resolved True" "''2024-05-01T10:00:00.000Z''"]
  show ?thesis by blast
qed

text \<open>
  C5, as the specification states it, asks for a warning that names the specific
  missing fields. The toast of \<open>submitCart\<close> is one fixed text: with only the email
  missing and with only the name missing the very same toast is emitted, and it asks
  for the name also when the name is there.
\<close>

theorem C5_missing_fields_counterexample:
  "spec_missing_fields \<lparr>cname = ''Jane'', email = '''', phone = '''', address = ''''\<rparr> = [''email'']
   \<and> spec_missing_fields \<lparr>cname = '''', email = ''jane@x.com'', phone = '''', address = ''''\<rparr>
       = [''name'']
   \<and> toasts_of (snd (submitCart (Resolved True) ''2024-05-01T10:00:00.000Z''
        \<lparr>cart = [with_quantity wrench 1], isCartOpen = True,
         customer_info = \<lparr>cname = ''Jane'', email = '''', phone = '''', address = ''''\<rparr>\<rparr>))
       = [\<lparr>title = ''Missing information'',
           toast_description = ''Please fill in your name and email address.'',
           variant = Some Destructive\<rparr>]
   \<and> toasts_of (snd (submitCart (Resolved True) ''2024-05-01T10:00:00.000Z''
        \<lparr>cart = [with_quantity wrench 1], isCartOpen = True,
         customer_info = \<lparr>cname = '''', email = ''jane@x.com'', phone = '''', address = ''''\<rparr>\<rparr>))
       = [\<lparr>title = ''Missing information'',
           toast_description = ''Please fill in your name and email address.'',
           variant = Some Destructive\<rparr>]"
  by (simp add: spec_missing_fields_def submitCart_def missing_info_toast_def)

text \<open>
  C5, amended. With a cart that is not empty and an empty name or an empty email,
  \<open>submitCart\<close> takes the missing-information exit: it sends no request, emits exactly
  one toast, the destructive "Missing information" whose fixed text asks for name and
  email address whichever of the two is missing, and leaves the cart and the customer
  information as they were.
\<close>

theorem C5_submit_missing_info:
  "cart s \<noteq> [] \<and> (cname (customer_info s) = '''' \<or> email (customer_info s) = '''') \<longrightarrow>
     requests_of (snd (submitCart outcome now s)) = []
     \<and> toasts_of (snd (submitCart outcome now s))
         = [\<lparr>title = ''Missing information'',
             toast_description = ''Please fill in your name and email address.'',
             variant = Some Destructive\<rparr>]
     \<and> fst (submitCart outcome now s) = s"
  by (auto simp: submitCart_missing missing_info_toast_def)

theorem C5_submit_missing_info_witness:
  "cart \<lparr>cart = [with_quantity wrench 1], isCartOpen = True,
         customer_info = empty_customerInfo\<rparr> \<noteq> []
   \<and> cname (customer_info \<lparr>cart = [with_quantity wrench 1], isCartOpen = True,
         customer_info = empty_customerInfo\<rparr>) = ''''
   \<and> requests_of (snd (submitCart (Resolved True) ''2024-05-01T10:00:00.000Z''
        \<lparr>cart = [with_quantity wrench 1], isCartOpen = True,
         customer_info = empty_customerInfo\<rparr>)) = []
   \<and> cart (fst (submitCart (Resolved True) ''2024-05-01T10:00:00.000Z''
        \<lparr>cart = [with_quantity wrench 1], isCartOpen = True,
         customer_info = empty_customerInfo\<rparr>)) = [with_quantity wrench 1]"
proof -
  let ?s = "\<lparr>cart = [with_quantity wrench 1], isCartOpen = True,
             customer_info = empty_customerInfo\<rparr>"
  have h1: "cart ?s \<noteq> []" by simp
  have h2: "cname (customer_info ?s) = ''''" by (simp add: empty_customerInfo_def)
  from h1 h2 C5_submit_missing_info [of ?s "Resolved True" "''2024-05-01T10:00:00.000Z''"]
  have "requests_of (snd (submitCart (Resolved True) ''2024-05-01T10:00:00.000Z'' ?s)) = []"
    and "fst (submitCart (Resolved True) ''2024-05-01T10:00:00.000Z'' ?s) = ?s"
    by blast+
  with h1 h2 show ?thesis by simp
qed

text \<open>
  C8. The check of the customer information looks at nothing but the emptiness of the
  two strings: with a cart that is not empty, any name and email that are not the empty
  string, also strings of blanks only, pass it and the request is sent, whatever the
  answer will be; an empty name or an empty email stops \<open>submitCart\<close> at the
  missing-information toast with no request sent.
\<close>

theorem C8_validation_is_emptiness:
  "cart s \<noteq> [] \<longrightarrow>
     (cname (customer_info s) \<noteq> '''' \<and> email (customer_info s) \<noteq> '''' \<longrightarrow>
        requests_of (snd (submitCart outcome now s)) = [build_request now s]
        \<and> missing_info_toast \<notin> set (toasts_of (snd (submitCart outcome now s))))
     \<and> (cname (customer_info s) = '''' \<or> email (customer_info s) = '''' \<longrightarrow>
        requests_of (snd (submitCart outcome now s)) = []
        \<and> toasts_of (snd (submitCart outcome now s)) = [missing_info_toast])"
proof
  assume c: "cart s \<noteq> []"
  have pass: "cname (customer_info s) \<noteq> '''' \<and> email (customer_info s) \<noteq> '''' \<longrightarrow>
        requests_of (snd (submitCart outcome now s)) = [build_request now s]
        \<and> missing_info_toast \<notin> set (toasts_of (snd (submitCart outcome now s)))"
  proof
    assume p: "cname (customer_info s) \<noteq> '''' \<and> email (customer_info s) \<noteq> ''''"
    show "requests_of (snd (submitCart outcome now s)) = [build_request now s]
        \<and> missing_info_toast \<notin> set (toasts_of (snd (submitCart outcome now s)))"
    proof (cases "outcome = Resolved True")
      case True
      with c p show ?thesis
        by (simp add: submitCart_success missing_info_toast_def submitted_toast_def)
    next
      case False
      with c p show ?thesis
        by (simp add: submitCart_failure missing_info_toast_def failed_toast_def)
    qed
  qed
  have stop: "cname (customer_info s) = '''' \<or> email (customer_info s) = '''' \<longrightarrow>
        requests_of (snd (submitCart outcome now s)) = []
        \<and> toasts_of (snd (submitCart outcome now s)) = [missing_info_toast]"
    using c by (auto simp: submitCart_missing)
  from pass stop show "(cname (customer_info s) \<noteq> '''' \<and> email (customer_info s) \<noteq> '''' \<longrightarrow>
        requests_of (snd (submitCart outcome now s)) = [build_request now s]
        \<and> missing_info_toast \<notin> set (toasts_of (snd (submitCart outcome now s))))
     \<and> (cname (customer_info s) = '''' \<or> email (customer_info s) = '''' \<longrightarrow>
        requests_of (snd (submitCart outcome now s)) = []
        \<and> toasts_of (snd (submitCart outcome now s)) = [missing_info_toast])"
    by blast
qed

theorem C8_validation_is_emptiness_witness:
  "cart (scenario_page\<lparr>customer_info := \<lparr>cname = ''   '', email = '' '', phone = '''',
                                          address = ''''\<rparr>\<rparr>) \<noteq> []
   \<and> ''   '' \<noteq> '''' \<and> '' '' \<noteq> ''''
   \<and> requests_of (snd (submitCart Rejected ''2024-05-01T10:00:00.000Z''
        (scenario_page\<lparr>customer_info := \<lparr>cname = ''   '', email = '' '', phone = '''',
                                          address = ''''\<rparr>\<rparr>)))
       = [build_request ''2024-05-01T10:00:00.000Z''
           (scenario_page\<lparr>customer_info := \<lparr>cname = ''   '', email = '' '', phone = '''',
                                          address = ''''\<rparr>\<rparr>)]
   \<and> cart (scenario_page\<lparr>customer_info := \<lparr>cname = ''Jane'', email = '''', phone = '''',
                                          address = ''''\<rparr>\<rparr>) \<noteq> []
   \<and> requests_of (snd (submitCart Rejected ''2024-05-01T10:00:00.000Z''
        (scenario_page\<lparr>customer_info := \<lparr>cname = ''Jane'', email = '''', phone = '''',
                                          address = ''''\<rparr>\<rparr>))) = []"
proof -
  let ?blank = "scenario_page\<lparr>customer_info := \<lparr>cname = ''   '', email = '' '', phone = '''',
                                          address = ''''\<rparr>\<rparr>"
  let ?noemail = "scenario_page\<lparr>customer_info := \<lparr>cname = ''Jane'', email = '''', phone = '''',
                                          address = ''''\<rparr>\<rparr>"
  have c1: "cart ?blank \<noteq> []" and c2: "cart ?noemail \<noteq> []"
    by (simp_all add: scenario_page_def)
  have p: "cname (customer_info ?blank) \<noteq> '''' \<and> email (customer_info ?blank) \<noteq> ''''"
    by simp
  have m: "cname (customer_info ?noemail) = '''' \<or> email (customer_info ?noemail) = ''''"
    by simp
  from c1 p C8_validation_is_emptiness [of ?blank Rejected "''2024-05-01T10:00:00.000Z''"]
  have r1: "requests_of (snd (submitCart Rejected ''2024-05-01T10:00:00.000Z'' ?blank))
            = [build_request ''2024-05-01T10:00:00.000Z'' ?blank]"
    by blast
  from c2 m C8_validation_is_emptiness [of ?noemail Rejected "''2024-05-01T10:00:00.000Z''"]
  have r2: "requests_of (snd (submitCart Rejected ''2024-05-01T10:00:00.000Z'' ?noemail)) = []"
    by blast
  from c1 c2 r1 r2 show ?thesis by simp
qed

section \<open>Properties of the organization registry\<close>

subsection \<open>Listing\<close>

lemma uOrgs_array: "user_organizations u = Some (JArr xs) \<Longrightarrow> uOrgs (Some u) = xs"
  by (simp add: uOrgs_def)

lemma uOrgs_no_array: "\<forall>xs. user_organizations u \<noteq> Some (JArr xs) \<Longrightarrow> uOrgs (Some u) = []"
  by (auto simp: uOrgs_def split: option.splits json.splits)

text \<open>
  C9. \<open>handleGetOrganizations\<close> never changes the registry and always answers 200 with
  a list of organizations: the whole registry, in its order, when the caller's role is
  \<open>super_admin\<close>; otherwise exactly the organizations of the registry whose id occurs
  in the caller's array of organizations, in the registry's order, which is the empty
  list when the request has no user or the user has no such array.
\<close>

theorem C9_list_organizations:
  "fst (handleGetOrganizations req st) = st
   \<and> status (snd (handleGetOrganizations req st)) = 200
   \<and> (req_user req = Some u \<and> role u = Some (JStr ''super_admin'') \<longrightarrow>
        res_body (snd (handleGetOrganizations req st)) = OrgsJson (organizations st))
   \<and> (req_user req = Some u \<and> role u \<noteq> Some (JStr ''super_admin'')
        \<and> user_organizations u = Some (JArr xs) \<longrightarrow>
        res_body (snd (handleGetOrganizations req st))
          = OrgsJson (filter (\<lambda>org. JStr (oid org) \<in> set xs) (organizations st)))
   \<and> (req_user req = Some u \<and> role u \<noteq> Some (JStr ''super_admin'')
        \<and> (\<forall>ys. user_organizations u \<noteq> Some (JArr ys)) \<longrightarrow>
        res_body (snd (handleGetOrganizations req st)) = OrgsJson [])
   \<and> (req_user req = None \<longrightarrow>
        res_body (snd (handleGetOrganizations req st)) = OrgsJson [])"
proof -
  have same: "fst (handleGetOrganizations req st) = st"
    and ok: "status (snd (handleGetOrganizations req st)) = 200"
    by (simp_all add: handleGetOrganizations_def)
  have admin: "req_user req = Some u \<and> role u = Some (JStr ''super_admin'') \<longrightarrow>
        res_body (snd (handleGetOrganizations req st)) = OrgsJson (organizations st)"
    by (simp add: handleGetOrganizations_def is_super_admin_def)
  have scoped: "req_user req = Some u \<and> role u \<noteq> Some (JStr ''super_admin'')
        \<and> user_organizations u = Some (JArr xs) \<longrightarrow>
        res_body (snd (handleGetOrganizations req st))
          = OrgsJson (filter (\<lambda>org. JStr (oid org) \<in> set xs) (organizations st))"
    by (simp add: handleGetOrganizations_def is_super_admin_def uOrgs_array)
  have noset: "req_user req = Some u \<and> role u \<noteq> Some (JStr ''super_admin'')
        \<and> (\<forall>ys. user_organizations u \<noteq> Some (JArr ys)) \<longrightarrow>
        res_body (snd (handleGetOrganizations req st)) = OrgsJson []"
    by (simp add: handleGetOrganizations_def is_super_admin_def uOrgs_no_array)
  have nouser: "req_user req = None \<longrightarrow>
        res_body (snd (handleGetOrganizations req st)) = OrgsJson []"
    by (simp add: handleGetOrganizations_def is_super_admin_def uOrgs_def)
  from same ok admin scoped noset nouser show ?thesis by blast
qed

theorem C9_list_organizations_witness:
  "res_body (snd (handleGetOrganizations (get_request (Some super_admin_user)) two_orgs))
     = OrgsJson [acme, globex]
   \<and> res_body (snd (handleGetOrganizations (get_request (Some staff_user)) two_orgs))
     = OrgsJson [globex]
   \<and> res_body (snd (handleGetOrganizations (get_request (Some unscoped_user)) two_orgs))
     = OrgsJson []
   \<and> res_body (snd (handleGetOrganizations (get_request None) two_orgs)) = OrgsJson []
   \<and> fst (handleGetOrganizations (get_request (Some staff_user)) two_orgs) = two_orgs"
proof -
  have a: "req_user (get_request (Some super_admin_user)) = Some super_admin_user
           \<and> role super_admin_user = Some (JStr ''super_admin'')"
    by (simp add: get_request_def super_admin_user_def)
  have s: "req_user (get_request (Some staff_user)) = Some staff_user
           \<and> role staff_user \<noteq> Some (JStr ''super_admin'')
           \<and> user_organizations staff_user
               = Some (JArr [JStr ''org-1700000000500-2'', JNum 7])"
    by (simp add: get_request_def staff_user_def)
  have n: "req_user (get_request (Some unscoped_user)) = Some unscoped_user
           \<and> role unscoped_user \<noteq> Some (JStr ''super_admin'')
           \<and> (\<forall>ys. user_organizations unscoped_user \<noteq> Some (JArr ys))"
    by (simp add: get_request_def unscoped_user_def)
  have z: "req_user (get_request None) = None"
    by (simp add: get_request_def)
  from a C9_list_organizations [of "get_request (Some super_admin_user)" two_orgs super_admin_user]
  have r1: "res_body (snd (handleGetOrganizations (get_request (Some super_admin_user)) two_orgs))
     = OrgsJson (organizations two_orgs)"
    by blast
  from s C9_list_organizations [of "get_request (Some staff_user)" two_orgs staff_user
      "[JStr ''org-1700000000500-2'', JNum 7]"]
  have r2: "res_body (snd (handleGetOrganizations (get_request (Some staff_user)) two_orgs))
     = OrgsJson (filter (\<lambda>org. JStr (oid org) \<in> set [JStr ''org-1700000000500-2'', JNum 7])
          (organizations two_orgs))"
    and r5: "fst (handleGetOrganizations (get_request (Some staff_user)) two_orgs) = two_orgs"
    by blast+
  from n C9_list_organizations [of "get_request (Some unscoped_user)" two_orgs unscoped_user]
  have r3: "res_body (snd (handleGetOrganizations (get_request (Some unscoped_user)) two_orgs))
     = OrgsJson []"
    by blast
  from z C9_list_organizations [of "get_request None" two_orgs]
  have r4: "res_body (snd (handleGetOrganizations (get_request None) two_orgs)) = OrgsJson []"
    by blast
  have f: "filter (\<lambda>org. JStr (oid org) \<in> set [JStr ''org-1700000000500-2'', JNum 7])
          (organizations two_orgs) = [globex]"
    by (simp add: two_orgs_def acme_def globex_def)
  from r1 r2 r3 r4 r5 f show ?thesis by (simp add: two_orgs_def)
qed

subsection \<open>Names of organizations\<close>

lemma findIndex_Some: "findIndex P xs = Some i \<Longrightarrow> i < length xs \<and> P (xs ! i)"
proof (induction xs arbitrary: i)
  case Nil
  then show ?case by simp
next
  case (Cons x xs)
  then show ?case
    by (cases "P x") (auto split: option.splits)
qed

lemma create_rejects_falsy_name:
  "\<not> truthy (get_prop (body_or_empty (body req)) ''name'') \<Longrightarrow>
   handleCreateOrganization now_ms now_iso req st
     = (st, \<lparr>status = 400, res_body = ErrorJson ''Organization name is required''\<rparr>)"
  by (cases "get_prop (body_or_empty (body req)) ''name''")
    (simp_all add: handleCreateOrganization_def Let_def)

lemma create_string_name_ok:
  assumes "names_ok st" "string_name req"
  shows "names_ok (fst (handleCreateOrganization now_ms now_iso req st))"
proof (cases "get_prop (body_or_empty (body req)) ''name''")
  case None
  with assms show ?thesis by (simp add: handleCreateOrganization_def Let_def)
next
  case (Some v)
  with assms(2) obtain s where "v = JStr s"
    by (auto simp: string_name_def split: json.splits)
  with Some assms(1) show ?thesis
    by (simp add: handleCreateOrganization_def Let_def names_ok_def)
qed

lemma update_string_name_ok:
  assumes "names_ok st" "string_name req"
  shows "names_ok (fst (handleUpdateOrganization req st))"
proof (cases "findIndex (\<lambda>org. oid org = params_id req) (organizations st)")
  case None
  with assms show ?thesis by (simp add: handleUpdateOrganization_def Let_def)
next
  case (Some idx)
  then have idx: "idx < length (organizations st)"
    by (simp add: findIndex_Some)
  with assms(1) have old: "oname (organizations st ! idx) \<noteq> ''''"
    by (simp add: names_ok_def)
  have new: "(case get_prop (body_or_empty (body req)) ''name'' of
                Some v \<Rightarrow> if truthy (Some v) then js_String v else oname (organizations st ! idx)
              | None \<Rightarrow> oname (organizations st ! idx)) \<noteq> ''''"
    using assms(2) old by (auto simp: string_name_def split: option.splits json.splits)
  show ?thesis
    unfolding names_ok_def
  proof
    fix org
    assume "org \<in> set (organizations (fst (handleUpdateOrganization req st)))"
    then have "org \<in> set ((organizations st)[idx := org]) \<and> oname org \<noteq> '''' \<or>
               org \<in> set (organizations st)"
      using Some new idx
      by (auto simp: handleUpdateOrganization_def Let_def set_conv_nth nth_list_update
          split: if_splits)
    with assms(1) show "oname org \<noteq> ''''"
      by (auto simp: names_ok_def)
  qed
qed

lemma delete_only_removes:
  "set (organizations (fst (handleDeleteOrganization req st))) \<subseteq> set (organizations st)"
proof (cases "findIndex (\<lambda>org. oid org = params_id req) (organizations st)")
  case None
  then show ?thesis by (simp add: handleDeleteOrganization_def)
next
  case (Some idx)
  have "set (take idx xs) \<union> set (drop (Suc idx) xs) \<subseteq> set xs" for xs :: "organization list"
    by (meson Un_least set_drop_subset set_take_subset)
  with Some show ?thesis by (simp add: handleDeleteOrganization_def)
qed

lemma delete_names_ok: "names_ok st \<Longrightarrow> names_ok (fst (handleDeleteOrganization req st))"
  using delete_only_removes [of req st] by (auto simp: names_ok_def)



text \<open>
  C10. The registry is meant to hold named organizations only: \<open>handleCreateOrganization\<close>
  answers 400 "Organization name is required" to a body whose \<open>name\<close> is falsy, the
  empty string included. The test is on the value as it arrives, the stored name is
  \<open>String(name)\<close>: an empty array is truthy and its string is empty. Created from the
  body \<open>{"name": []}\<close>, an organization with the empty name enters the registry with
  status 201, and the update of a named organization with that body replaces its name
  by the empty string.
\<close>

theorem C10_empty_name_stored:
  "handleCreateOrganization 1700000000000 ''2023-11-14T22:13:20.000Z''
     \<lparr>body = Some (JObj [(''name'', JArr [])]), params_id = '''', req_user = None\<rparr>
     initial_registry
   = (\<lparr>organizations =
         [\<lparr>oid = ''org-1700000000000-1'', oname = '''',
           createdAt = ''2023-11-14T22:13:20.000Z'', logoUrl = None, settings = None\<rparr>],
       orgCounter = 2\<rparr>,
      \<lparr>status = 201,
       res_body = OrgJson \<lparr>oid = ''org-1700000000000-1'', oname = '''',
           createdAt = ''2023-11-14T22:13:20.000Z'', logoUrl = None, settings = None\<rparr>\<rparr>)
   \<and> oname acme = ''Acme''
   \<and> handleUpdateOrganization
       \<lparr>body = Some (JObj [(''name'', JArr [])]), params_id = ''org-1700000000000-1'',
        req_user = None\<rparr> two_orgs
     = (\<lparr>organizations = [acme\<lparr>oname := ''''\<rparr>, globex], orgCounter = 3\<rparr>,
        \<lparr>status = 200, res_body = OrgJson (acme\<lparr>oname := ''''\<rparr>)\<rparr>)"
  by (simp add: handleCreateOrganization_def handleUpdateOrganization_def body_or_empty_def
      initial_registry_def two_orgs_def acme_def globex_def digit_char_def digits.simps Let_def)

end
